theory Spec2Isabelle
  imports Main "HOL-Library.List_Lexorder" "HOL-Library.Char_ord"
begin

section \<open>Data model\<close>

text \<open>
  The backend (\<^verbatim>\<open>src/backend/server.js\<close>) is an Express application over a PostgreSQL
  store; its request and response shapes are the zod schemas of \<^verbatim>\<open>zodschemas.js\<close>
  (\<^verbatim>\<open>src/unnamed/part_005\<close>, after the SQL of the tables).

  A \<open>string\<close> stands for a JavaScript string, one \<open>char\<close> per code unit, so \<open>length\<close> is
  the \<^verbatim>\<open>.length\<close> zod compares. A nullable TEXT column is a \<open>string option\<close>, \<open>None\<close> for
  SQL NULL.
\<close>

text \<open>One row of the table \<^verbatim>\<open>clients\<close> (CREATE TABLE clients, part_005 lines 24-42).\<close>

record client =
  client_id :: string
  full_name :: string
  phone :: string
  email :: string
  property_location :: "string option"
  property_type :: "string option"
  budget_range :: "string option"
  additional_preferences :: "string option"
  status :: string
  last_contact_date :: "string option"
  next_follow_up_date :: "string option"
  assigned_agent_id :: "string option"
  client_notes :: "string option"
  created_at :: string
  updated_at :: string
  deleted_at :: "string option"

text \<open>One row of the table \<^verbatim>\<open>client_attachments\<close> (part_005 lines 58-67).\<close>

record attachment =
  attachment_id :: string
  att_client_id :: string
  uploaded_by :: string
  file_name :: string
  file_url :: string
  uploaded_at :: string

text \<open>
  The store: the primary keys of \<^verbatim>\<open>users\<close> (the target of the foreign key of
  \<^verbatim>\<open>clients.assigned_agent_id\<close>) and the rows of the two tables the handlers below read and
  write, in table order.
\<close>

record db =
  users :: "string list"
  clients :: "client list"
  client_attachments :: "attachment list"

text \<open>
  \<^verbatim>\<open>req.user\<close>: the payload \<^verbatim>\<open>authenticateJWT\<close> leaves on the request, as \<^verbatim>\<open>/login\<close>
  signed it. The role is a plain string; the handlers compare it with \<^verbatim>\<open>'agent'\<close> and
  \<^verbatim>\<open>'manager'\<close>.
\<close>

record jwt_user =
  user_id :: string
  role :: string

text \<open>
  An untyped record of string-keyed fields: one object of \<^verbatim>\<open>csvParse(..., {columns: true})\<close>
  (every value a string, a key either present or not), and likewise \<^verbatim>\<open>req.query\<close>.
\<close>

type_synonym raw_record = "string \<Rightarrow> string option"

text \<open>
  What the repository takes from its libraries and its runtime, none of it under
  \<^verbatim>\<open>src/\<close>, as parameters of the model:
  \<^item> \<open>zod_email\<close>: the pattern behind \<^verbatim>\<open>z.string().email()\<close>;
  \<^item> \<open>zod_url\<close>: the test behind \<^verbatim>\<open>z.string().url()\<close>;
  \<^item> \<open>js_date\<close>: whether \<^verbatim>\<open>new Date(s)\<close> is a valid date, which is what
    \<^verbatim>\<open>z.coerce.date()\<close> asks of a string;
  \<^item> \<open>csv_parse\<close>: \<^verbatim>\<open>csvParse(buffer, {columns: true, trim: true}, cb)\<close>, giving the
    callback either \<^verbatim>\<open>err\<close> (its message) or the records;
  \<^item> \<open>json2csv_ok\<close>: whether \<^verbatim>\<open>new Json2csvParser().parse(rows)\<close> returns rather than throws;
  \<^item> \<open>pg_le\<close>: the collation PostgreSQL orders a TEXT column by;
  \<^item> \<open>pg_ilike\<close>: \<^verbatim>\<open>value ILIKE pattern\<close>, pattern first;
  \<^item> \<open>pg_date_text\<close>: the text the PostgreSQL driver writes into a TEXT column for the
    \<^verbatim>\<open>Date\<close> that \<^verbatim>\<open>new Date(s)\<close> builds from \<open>s\<close>.
\<close>

record 'buf libs =
  zod_email :: "string \<Rightarrow> bool"
  zod_url :: "string \<Rightarrow> bool"
  js_date :: "string \<Rightarrow> bool"
  csv_parse :: "'buf \<Rightarrow> string + raw_record list"
  json2csv_ok :: "client list \<Rightarrow> bool"
  pg_le :: "string \<Rightarrow> string \<Rightarrow> bool"
  pg_ilike :: "string \<Rightarrow> string \<Rightarrow> bool"
  pg_date_text :: "string \<Rightarrow> string"

section \<open>The zod schemas\<close>

text \<open>
  A failed \<^verbatim>\<open>parse\<close> throws a ZodError holding one issue per violated check, each with the
  path of its field; zod checks every key of an object and every check of a string before
  it throws, so the issues come in the order of the schema.
\<close>

datatype issue_code =
  Required | Too_small | Too_big | Invalid_email | Invalid_url | Invalid_date | Invalid_type
  | Invalid_enum_value

type_synonym zod_issue = "string \<times> issue_code"

datatype str_check = Min nat | Max nat | Email | Url

fun run_check :: "'buf libs \<Rightarrow> string \<Rightarrow> str_check \<Rightarrow> issue_code list" where
  "run_check L s (Min n) = (if length s < n then [Too_small] else [])"
| "run_check L s (Max n) = (if n < length s then [Too_big] else [])"
| "run_check L s Email = (if zod_email L s then [] else [Invalid_email])"
| "run_check L s Url = (if zod_url L s then [] else [Invalid_url])"

text \<open>\<^verbatim>\<open>z.string().check1().check2()...\<close> at key \<open>k\<close>: an absent key is \<^verbatim>\<open>Required\<close>.\<close>

definition z_string :: "'buf libs \<Rightarrow> str_check list \<Rightarrow> string \<Rightarrow> string option \<Rightarrow> zod_issue list" where
  "z_string L cs k v =
     (case v of
        None \<Rightarrow> [(k, Required)]
      | Some s \<Rightarrow> map (Pair k) (concat (map (run_check L s) cs)))"

text \<open>
  \<^verbatim>\<open>z.string().nullable().optional()\<close>: an absent key passes as \<^verbatim>\<open>undefined\<close>, and a
  string passes as it is.
\<close>

definition z_string_nullable_optional :: "string \<Rightarrow> string option \<Rightarrow> zod_issue list" where
  "z_string_nullable_optional k v = []"

text \<open>
  \<^verbatim>\<open>z.coerce.date()\<close> on a string \<open>s\<close> builds \<^verbatim>\<open>new Date(s)\<close> and raises
  \<^verbatim>\<open>invalid_date\<close> when its time value is NaN.
\<close>

definition z_coerce_date :: "'buf libs \<Rightarrow> string \<Rightarrow> string \<Rightarrow> zod_issue list" where
  "z_coerce_date L k s = (if js_date L s then [] else [(k, Invalid_date)])"

text \<open>
  \<^verbatim>\<open>z.coerce.date().nullable().optional()\<close>: \<^verbatim>\<open>optional\<close> lets an absent key
  through before any coercion; a string, the empty one too, is coerced.
\<close>

definition z_coerce_date_nullable_optional ::
  "'buf libs \<Rightarrow> string \<Rightarrow> string option \<Rightarrow> zod_issue list" where
  "z_coerce_date_nullable_optional L k v =
     (case v of None \<Rightarrow> [] | Some s \<Rightarrow> z_coerce_date L k s)"

text \<open>
  \<^verbatim>\<open>z.coerce.date().nullable()\<close> on a column read back from the store: NULL passes,
  a text is coerced.
\<close>

definition z_coerce_date_nullable :: "'buf libs \<Rightarrow> string \<Rightarrow> string option \<Rightarrow> zod_issue list" where
  "z_coerce_date_nullable L k v =
     (case v of None \<Rightarrow> [] | Some s \<Rightarrow> z_coerce_date L k s)"

text \<open>
  The value \<^verbatim>\<open>createClientInputSchema.parse\<close> returns: the keys of the schema only, an
  absent optional key still absent (\<open>None\<close> is \<^verbatim>\<open>undefined\<close>). A date field holds the
  \<^verbatim>\<open>Date\<close> built from the string; the model keeps that string in its place.
\<close>

record client_input =
  in_full_name :: string
  in_phone :: string
  in_email :: string
  in_property_location :: "string option"
  in_property_type :: "string option"
  in_budget_range :: "string option"
  in_additional_preferences :: "string option"
  in_status :: string
  in_last_contact_date :: "string option"
  in_next_follow_up_date :: "string option"
  in_assigned_agent_id :: "string option"
  in_notes :: "string option"

text \<open>The issues of \<^verbatim>\<open>createClientInputSchema\<close> (part_005 lines 189-202), key by key.\<close>

definition createClientInputSchema_issues :: "'buf libs \<Rightarrow> raw_record \<Rightarrow> zod_issue list" where
  "createClientInputSchema_issues L r =
     z_string L [Min 1, Max 255] ''full_name'' (r ''full_name'')
     @ z_string L [Min 7, Max 20] ''phone'' (r ''phone'')
     @ z_string L [Email] ''email'' (r ''email'')
     @ z_string_nullable_optional ''property_location'' (r ''property_location'')
     @ z_string_nullable_optional ''property_type'' (r ''property_type'')
     @ z_string_nullable_optional ''budget_range'' (r ''budget_range'')
     @ z_string_nullable_optional ''additional_preferences'' (r ''additional_preferences'')
     @ z_string L [Min 1] ''status'' (r ''status'')
     @ z_coerce_date_nullable_optional L ''last_contact_date'' (r ''last_contact_date'')
     @ z_coerce_date_nullable_optional L ''next_follow_up_date'' (r ''next_follow_up_date'')
     @ z_string_nullable_optional ''assigned_agent_id'' (r ''assigned_agent_id'')
     @ z_string_nullable_optional ''notes'' (r ''notes'')"

text \<open>
  \<^verbatim>\<open>createClientInputSchema.parse(record)\<close>: \<open>Inl\<close> is the thrown ZodError (its issues),
  \<open>Inr\<close> the parsed data. A required key that is absent has raised \<^verbatim>\<open>Required\<close>, so
  the last case always carries issues.
\<close>

definition createClientInputSchema_parse ::
  "'buf libs \<Rightarrow> raw_record \<Rightarrow> zod_issue list + client_input" where
  "createClientInputSchema_parse L r =
     (case (createClientInputSchema_issues L r, r ''full_name'', r ''phone'', r ''email'', r ''status'') of
        ([], Some fn, Some ph, Some em, Some st) \<Rightarrow>
          Inr \<lparr> in_full_name = fn,
                in_phone = ph,
                in_email = em,
                in_property_location = r ''property_location'',
                in_property_type = r ''property_type'',
                in_budget_range = r ''budget_range'',
                in_additional_preferences = r ''additional_preferences'',
                in_status = st,
                in_last_contact_date = r ''last_contact_date'',
                in_next_follow_up_date = r ''next_follow_up_date'',
                in_assigned_agent_id = r ''assigned_agent_id'',
                in_notes = r ''notes'' \<rparr>
      | (issues, _) \<Rightarrow> Inl issues)"

section \<open>Responses\<close>

text \<open>
  What a handler sends: the status code and the body. \<open>Error\<close> is \<^verbatim>\<open>{error: "..."}\<close> with
  a message written in the handler, \<open>Zod_error\<close> and \<open>Thrown\<close> the same object built by a
  \<^verbatim>\<open>catch\<close> from an exception (a ZodError with its issues, any other error). The bodies
  that carry rows stand for their serialisation: JSON for \<open>Client_json\<close>, \<open>Clients_json\<close> and
  \<open>Attachments_json\<close>, and the text/csv attachment json2csv writes for \<open>Clients_csv\<close>.
  \<open>Default_error_page\<close> is what Express itself sends when a middleware passes an error to
  \<^verbatim>\<open>next\<close> and no error handler is registered, as none is in server.js.
\<close>

datatype body =
    Error string
  | Zod_error "zod_issue list"
  | Thrown
  | Default_error_page
  | Message string
  | Import_result string nat nat
  | Client_json client
  | Clients_json "client list"
  | Clients_csv "client list"
  | Attachments_json "attachment list"

datatype response = Response nat body


section \<open>POST /clients/import\<close>

text \<open>
  What one turn of the import loop draws from outside the program: the identifier
  \<^verbatim>\<open>uuidv4()\<close> returns, the text of \<^verbatim>\<open>new Date().toISOString()\<close>, and whether the store
  answers the INSERT at all.
\<close>

record tick =
  uuidv4 :: string
  now_iso :: string
  db_up :: bool

text \<open>\<^verbatim>\<open>x || null\<close> on a string or \<^verbatim>\<open>undefined\<close>: the empty string is falsy too.\<close>

definition or_null :: "string option \<Rightarrow> string option" where
  "or_null x = (case x of None \<Rightarrow> None | Some s \<Rightarrow> if s = [] then None else Some s)"

text \<open>
  \<^verbatim>\<open>x || null\<close> on a parsed date or \<^verbatim>\<open>undefined\<close>: a \<^verbatim>\<open>Date\<close> object is always truthy,
  and what reaches the TEXT column is not the cell of the upload but the text the driver
  writes for the \<^verbatim>\<open>Date\<close> zod built from it.
\<close>

definition date_or_null :: "'buf libs \<Rightarrow> string option \<Rightarrow> string option" where
  "date_or_null L x = (case x of None \<Rightarrow> None | Some s \<Rightarrow> Some (pg_date_text L s))"

text \<open>The array \<^verbatim>\<open>values\<close> of the import loop (server.js lines 493-509), as a row.\<close>

definition import_values :: "'buf libs \<Rightarrow> client_input \<Rightarrow> tick \<Rightarrow> client" where
  "import_values L data t =
     \<lparr> client_id = uuidv4 t,
       full_name = in_full_name data,
       phone = in_phone data,
       email = in_email data,
       property_location = or_null (in_property_location data),
       property_type = or_null (in_property_type data),
       budget_range = or_null (in_budget_range data),
       additional_preferences = or_null (in_additional_preferences data),
       status = in_status data,
       last_contact_date = date_or_null L (in_last_contact_date data),
       next_follow_up_date = date_or_null L (in_next_follow_up_date data),
       assigned_agent_id = or_null (in_assigned_agent_id data),
       client_notes = or_null (in_notes data),
       created_at = now_iso t,
       updated_at = now_iso t,
       deleted_at = None \<rparr>"

text \<open>
  \<^verbatim>\<open>pool.query('INSERT INTO clients ...')\<close>: \<open>None\<close> when the query rejects, which it
  does when the store does not answer, on a duplicate primary key, and when
  \<^verbatim>\<open>assigned_agent_id\<close> names no row of \<^verbatim>\<open>users\<close> (the foreign key of the table).
\<close>

definition insert_client :: "bool \<Rightarrow> db \<Rightarrow> client \<Rightarrow> db option" where
  "insert_client up d c =
     (if \<not> up then None
      else if client_id c \<in> set (map client_id (clients d)) then None
      else if (case assigned_agent_id c of None \<Rightarrow> False | Some a \<Rightarrow> a \<notin> set (users d)) then None
      else Some (d\<lparr>clients := clients d @ [c]\<rparr>))"

text \<open>
  The loop \<^verbatim>\<open>for (const record of records)\<close> with its \<^verbatim>\<open>try\<close>/\<^verbatim>\<open>catch\<close> (lines
  484-515): the state is \<^verbatim>\<open>(successCount, errorCount)\<close> and the store, \<open>i\<close> counts the
  records already seen. Both a ZodError and a rejected INSERT land in the one
  \<^verbatim>\<open>catch\<close>.
\<close>

fun import_loop ::
  "'buf libs \<Rightarrow> (nat \<Rightarrow> tick) \<Rightarrow> nat \<Rightarrow> raw_record list \<Rightarrow> nat \<times> nat \<times> db \<Rightarrow> nat \<times> nat \<times> db" where
  "import_loop L env i [] (successCount, errorCount, d) = (successCount, errorCount, d)"
| "import_loop L env i (record # records) (successCount, errorCount, d) =
     (case createClientInputSchema_parse L record of
        Inl parseError \<Rightarrow> import_loop L env (Suc i) records (successCount, errorCount + 1, d)
      | Inr data \<Rightarrow>
          (case insert_client (db_up (env i)) d (import_values L data (env i)) of
             None \<Rightarrow> import_loop L env (Suc i) records (successCount, errorCount + 1, d)
           | Some d' \<Rightarrow> import_loop L env (Suc i) records (successCount + 1, errorCount, d')))"

text \<open>
  The handler (lines 472-521), after \<^verbatim>\<open>authenticateJWT\<close> and
  \<^verbatim>\<open>csvUpload.single('file')\<close>: \<open>file\<close> is \<^verbatim>\<open>req.file\<close>, absent when the request
  carried no file field.
\<close>

definition clients_import ::
  "'buf libs \<Rightarrow> (nat \<Rightarrow> tick) \<Rightarrow> jwt_user \<Rightarrow> 'buf option \<Rightarrow> db \<Rightarrow> response \<times> db" where
  "clients_import L env usr file d =
     (if role usr \<noteq> ''manager'' then (Response 403 (Error ''Only managers can import clients.''), d)
      else case file of
        None \<Rightarrow> (Response 400 (Error ''CSV file is required.''), d)
      | Some buffer \<Rightarrow>
          (case csv_parse L buffer of
             Inl err \<Rightarrow> (Response 400 (Error err), d)
           | Inr records \<Rightarrow>
               (case import_loop L env 0 records (0, 0, d) of
                  (successCount, errorCount, d') \<Rightarrow>
                    (Response 200 (Import_result ''CSV import completed'' successCount errorCount), d'))))"

text \<open>
  The route around the handler (line 472):
  \<^verbatim>\<open>app.post('/clients/import', authenticateJWT, csvUpload.single('file'), handler)\<close>.

  \<^verbatim>\<open>authenticateJWT\<close> (lines 118-132) answers 401 without a Bearer header and 403 when
  \<^verbatim>\<open>jwt.verify\<close> refuses the token; otherwise it leaves the payload on the request.
\<close>

datatype credentials = No_bearer | Bad_token | Verified jwt_user

text \<open>
  The body of the request as multer sees it: not multipart at all, multipart that cannot
  be read to its end, or the file parts of a multipart body, each with the name of its
  form field (text fields go to \<^verbatim>\<open>req.body\<close> and play no part).
\<close>

datatype 'buf payload = Not_multipart | Broken_multipart | Multipart "(string \<times> 'buf) list"

datatype 'buf upload = Upload_error | No_file | File 'buf

text \<open>
  \<^verbatim>\<open>multer(...).single(name)\<close>: it lets a request that is not multipart pass with no
  \<^verbatim>\<open>req.file\<close>, accepts one file under the field \<open>name\<close>, and passes an error to
  \<^verbatim>\<open>next\<close> for a body it cannot read, for a file under any other field and for a
  second file.
\<close>

fun multer_single :: "string \<Rightarrow> 'buf payload \<Rightarrow> 'buf upload" where
  "multer_single name Not_multipart = No_file"
| "multer_single name Broken_multipart = Upload_error"
| "multer_single name (Multipart []) = No_file"
| "multer_single name (Multipart [(field, buffer)]) =
     (if field = name then File buffer else Upload_error)"
| "multer_single name (Multipart (part # other # parts)) = Upload_error"

definition import_route ::
  "'buf libs \<Rightarrow> (nat \<Rightarrow> tick) \<Rightarrow> credentials \<Rightarrow> 'buf payload \<Rightarrow> db \<Rightarrow> response \<times> db" where
  "import_route L env cred sent d =
     (case cred of
        No_bearer \<Rightarrow> (Response 401 (Error ''Unauthorized''), d)
      | Bad_token \<Rightarrow> (Response 403 (Error ''Forbidden''), d)
      | Verified usr \<Rightarrow>
          (case multer_single ''file'' sent of
             Upload_error \<Rightarrow> (Response 500 Default_error_page, d)
           | No_file \<Rightarrow> clients_import L env usr None d
           | File buffer \<Rightarrow> clients_import L env usr (Some buffer) d))"

text \<open>
  Whether every INSERT the loop attempts is accepted by the store: the run of
  \<open>import_loop\<close> again, looking only at the outcome of each query.
\<close>

fun inserts_succeed :: "'buf libs \<Rightarrow> (nat \<Rightarrow> tick) \<Rightarrow> nat \<Rightarrow> raw_record list \<Rightarrow> db \<Rightarrow> bool" where
  "inserts_succeed L env i [] d = True"
| "inserts_succeed L env i (record # records) d =
     (case createClientInputSchema_parse L record of
        Inl parseError \<Rightarrow> inserts_succeed L env (Suc i) records d
      | Inr data \<Rightarrow>
          (case insert_client (db_up (env i)) d (import_values L data (env i)) of
             None \<Rightarrow> False
           | Some d' \<Rightarrow> inserts_succeed L env (Suc i) records d'))"

text \<open>The Row Validator accepts a record when the parse returns.\<close>

definition accepts :: "'buf libs \<Rightarrow> raw_record \<Rightarrow> bool" where
  "accepts L r = (case createClientInputSchema_parse L r of Inl e \<Rightarrow> False | Inr data \<Rightarrow> True)"

section \<open>The read paths: GET /clients, GET /clients/:client_id, GET /clients/export\<close>

text \<open>\<^verbatim>\<open>z.string().nullable()\<close> on a column read back from the store: a text or NULL.\<close>

definition z_string_nullable :: "string \<Rightarrow> string option \<Rightarrow> zod_issue list" where
  "z_string_nullable k v = []"

text \<open>The issues of \<^verbatim>\<open>clientEntitySchema\<close> (part_005 lines 169-186) on a row of the table.\<close>

definition clientEntitySchema_issues :: "'buf libs \<Rightarrow> client \<Rightarrow> zod_issue list" where
  "clientEntitySchema_issues L c =
     z_string L [] ''client_id'' (Some (client_id c))
     @ z_string L [] ''full_name'' (Some (full_name c))
     @ z_string L [] ''phone'' (Some (phone c))
     @ z_string L [Email] ''email'' (Some (email c))
     @ z_string_nullable ''property_location'' (property_location c)
     @ z_string_nullable ''property_type'' (property_type c)
     @ z_string_nullable ''budget_range'' (budget_range c)
     @ z_string_nullable ''additional_preferences'' (additional_preferences c)
     @ z_string L [] ''status'' (Some (status c))
     @ z_coerce_date_nullable L ''last_contact_date'' (last_contact_date c)
     @ z_coerce_date_nullable L ''next_follow_up_date'' (next_follow_up_date c)
     @ z_string_nullable ''assigned_agent_id'' (assigned_agent_id c)
     @ z_string_nullable ''notes'' (client_notes c)
     @ z_coerce_date L ''created_at'' (created_at c)
     @ z_coerce_date L ''updated_at'' (updated_at c)
     @ z_coerce_date_nullable L ''deleted_at'' (deleted_at c)"

text \<open>
  \<^verbatim>\<open>rows.map(row => schema.parse(row))\<close>: the first row that does not parse throws, and
  the handler's \<^verbatim>\<open>catch\<close> answers 500.
\<close>

definition parse_rows :: "('a \<Rightarrow> zod_issue list) \<Rightarrow> 'a list \<Rightarrow> zod_issue list + 'a list" where
  "parse_rows issues rows =
     (case filter (\<lambda>row. issues row \<noteq> []) rows of
        [] \<Rightarrow> Inr rows
      | row # _ \<Rightarrow> Inl (issues row))"

text \<open>
  \<^verbatim>\<open>searchClientQuerySchema\<close> (part_005 lines 222-228) on \<^verbatim>\<open>req.query\<close>, whose values
  are strings. \<^verbatim>\<open>limit\<close> and \<^verbatim>\<open>offset\<close> are \<^verbatim>\<open>z.number()\<close> with no coercion: a value in
  the query string is a string and raises \<^verbatim>\<open>invalid_type\<close>, so a query that parses has
  the defaults 10 and 0.
\<close>

record client_query =
  q_query :: "string option"
  q_limit :: nat
  q_offset :: nat
  q_sort_by :: string
  q_sort_order :: string

definition z_number_default :: "string \<Rightarrow> string option \<Rightarrow> zod_issue list" where
  "z_number_default k v = (case v of None \<Rightarrow> [] | Some s \<Rightarrow> [(k, Invalid_type)])"

definition z_enum_default :: "string list \<Rightarrow> string \<Rightarrow> string option \<Rightarrow> zod_issue list" where
  "z_enum_default vals k v =
     (case v of None \<Rightarrow> [] | Some s \<Rightarrow> if s \<in> set vals then [] else [(k, Invalid_enum_value)])"

definition with_default :: "'a \<Rightarrow> 'a option \<Rightarrow> 'a" where
  "with_default dflt v = (case v of None \<Rightarrow> dflt | Some x \<Rightarrow> x)"

definition searchClientQuerySchema_issues :: "raw_record \<Rightarrow> zod_issue list" where
  "searchClientQuerySchema_issues q =
     z_number_default ''limit'' (q ''limit'')
     @ z_number_default ''offset'' (q ''offset'')
     @ z_enum_default [''full_name'', ''created_at'', ''status''] ''sort_by'' (q ''sort_by'')
     @ z_enum_default [''asc'', ''desc''] ''sort_order'' (q ''sort_order'')"

definition searchClientQuerySchema_parse :: "raw_record \<Rightarrow> zod_issue list + client_query" where
  "searchClientQuerySchema_parse q =
     (case searchClientQuerySchema_issues q of
        [] \<Rightarrow>
          Inr \<lparr> q_query = q ''query'',
                q_limit = 10,
                q_offset = 0,
                q_sort_by = with_default ''created_at'' (q ''sort_by''),
                q_sort_order = with_default ''desc'' (q ''sort_order'') \<rparr>
      | i # is \<Rightarrow> Inl (i # is))"

text \<open>The two allow-lists of the handlers (lines 309-310 and 534-535).\<close>

definition allowedSortBy :: "string list" where
  "allowedSortBy = [''client_id'', ''full_name'', ''created_at'', ''updated_at'']"

definition allowedSortOrder :: "string list" where
  "allowedSortOrder = [''ASC'', ''DESC'']"

text \<open>
  \<^verbatim>\<open>String.prototype.toUpperCase\<close> on the letters a to z, which covers every string that
  has passed the enum of \<^verbatim>\<open>sort_order\<close>.
\<close>

definition upper_char :: "char \<Rightarrow> char" where
  "upper_char c =
     (case map_of (zip ''abcdefghijklmnopqrstuvwxyz'' ''ABCDEFGHIJKLMNOPQRSTUVWXYZ'') c of
        Some u \<Rightarrow> u
      | None \<Rightarrow> c)"

definition toUpperCase :: "string \<Rightarrow> string" where
  "toUpperCase s = map upper_char s"

text \<open>The column \<^verbatim>\<open>ORDER BY\<close> names; each of the four is TEXT NOT NULL.\<close>

definition sort_column :: "string \<Rightarrow> client \<Rightarrow> string" where
  "sort_column col c =
     (if col = ''client_id'' then client_id c
      else if col = ''created_at'' then created_at c
      else if col = ''updated_at'' then updated_at c
      else full_name c)"

text \<open>
  \<^verbatim>\<open>ORDER BY col ASC\<close> or \<^verbatim>\<open>DESC\<close> under the collation of the store: insertion into a
  list kept in order, rows the collation does not tell apart staying in table order.
\<close>

fun insert_by :: "('a \<Rightarrow> 'a \<Rightarrow> bool) \<Rightarrow> 'a \<Rightarrow> 'a list \<Rightarrow> 'a list" where
  "insert_by le x [] = [x]"
| "insert_by le x (y # ys) = (if le x y then x # y # ys else y # insert_by le x ys)"

definition order_by :: "('a \<Rightarrow> 'a \<Rightarrow> bool) \<Rightarrow> 'a list \<Rightarrow> 'a list" where
  "order_by le rows = foldr (insert_by le) rows []"

definition row_le :: "'buf libs \<Rightarrow> string \<Rightarrow> string \<Rightarrow> client \<Rightarrow> client \<Rightarrow> bool" where
  "row_le L col dir a b =
     (if dir = ''DESC'' then pg_le L (sort_column col b) (sort_column col a)
      else pg_le L (sort_column col a) (sort_column col b))"

text \<open>
  The query both handlers build and run (lines 308-329 of GET /clients and 533-553 of
  GET /clients/export are the same statements): the allow-lists, the WHERE clause grown
  by the role and by a non-empty search text, ORDER BY, LIMIT and OFFSET.
\<close>

definition clients_select :: "'buf libs \<Rightarrow> jwt_user \<Rightarrow> client_query \<Rightarrow> db \<Rightarrow> client list" where
  "clients_select L usr pq d =
     (let sort_by = (if q_sort_by pq \<in> set allowedSortBy then q_sort_by pq else ''full_name'');
          sort_order = (if toUpperCase (q_sort_order pq) \<in> set allowedSortOrder
                        then toUpperCase (q_sort_order pq) else ''ASC'');
          matching = filter (\<lambda>c.
              deleted_at c = None
              \<and> (if role usr = ''agent'' then assigned_agent_id c = Some (user_id usr) else True)
              \<and> (case q_query pq of
                   None \<Rightarrow> True
                 | Some searchQuery \<Rightarrow>
                     if searchQuery = [] then True
                     else pg_ilike L (''%'' @ searchQuery @ ''%'') (full_name c)))
            (clients d)
      in take (q_limit pq) (drop (q_offset pq) (order_by (row_le L sort_by sort_order) matching)))"

text \<open>GET /clients (lines 303-335).\<close>

definition clients_list :: "'buf libs \<Rightarrow> jwt_user \<Rightarrow> raw_record \<Rightarrow> db \<Rightarrow> response" where
  "clients_list L usr q d =
     (case searchClientQuerySchema_parse q of
        Inl issues \<Rightarrow> Response 500 (Zod_error issues)
      | Inr pq \<Rightarrow>
          (case parse_rows (clientEntitySchema_issues L) (clients_select L usr pq d) of
             Inl issues \<Rightarrow> Response 500 (Zod_error issues)
           | Inr rows \<Rightarrow> Response 200 (Clients_json rows)))"

text \<open>GET /clients/export as the handler is written (lines 528-563).\<close>

definition clients_export :: "'buf libs \<Rightarrow> jwt_user \<Rightarrow> raw_record \<Rightarrow> db \<Rightarrow> response" where
  "clients_export L usr q d =
     (case searchClientQuerySchema_parse q of
        Inl issues \<Rightarrow> Response 500 (Zod_error issues)
      | Inr pq \<Rightarrow>
          (let rows = clients_select L usr pq d
           in if json2csv_ok L rows then Response 200 (Clients_csv rows) else Response 500 Thrown))"

text \<open>
  \<^verbatim>\<open>SELECT * FROM clients WHERE client_id = $1 AND deleted_at IS NULL\<close>, the lookup of
  the detail, update and delete handlers.
\<close>

definition select_live_client :: "string \<Rightarrow> db \<Rightarrow> client list" where
  "select_live_client cid d = filter (\<lambda>c. client_id c = cid \<and> deleted_at c = None) (clients d)"

text \<open>GET /clients/:client_id (lines 342-357).\<close>

definition clients_detail :: "'buf libs \<Rightarrow> jwt_user \<Rightarrow> string \<Rightarrow> db \<Rightarrow> response" where
  "clients_detail L usr cid d =
     (case select_live_client cid d of
        [] \<Rightarrow> Response 404 (Error ''Client not found'')
      | client # _ \<Rightarrow>
          if role usr = ''agent'' \<and> assigned_agent_id client \<noteq> Some (user_id usr)
          then Response 403 (Error ''Forbidden'')
          else (case clientEntitySchema_issues L client of
                  [] \<Rightarrow> Response 200 (Client_json client)
                | i # is \<Rightarrow> Response 500 (Zod_error (i # is))))"


section \<open>GET /clients/:client_id/attachments\<close>

text \<open>The issues of \<^verbatim>\<open>clientAttachmentEntitySchema\<close> (part_005 lines 278-285) on a row.\<close>

definition clientAttachmentEntitySchema_issues :: "'buf libs \<Rightarrow> attachment \<Rightarrow> zod_issue list" where
  "clientAttachmentEntitySchema_issues L a =
     z_string L [] ''attachment_id'' (Some (attachment_id a))
     @ z_string L [] ''client_id'' (Some (att_client_id a))
     @ z_string L [] ''uploaded_by'' (Some (uploaded_by a))
     @ z_string L [] ''file_name'' (Some (file_name a))
     @ z_string L [Url] ''file_url'' (Some (file_url a))
     @ z_coerce_date L ''uploaded_at'' (uploaded_at a)"

text \<open>
  The handler (lines 678-687): one SELECT on \<^verbatim>\<open>client_attachments\<close> by \<^verbatim>\<open>client_id\<close>, no
  look at \<^verbatim>\<open>clients\<close> and none at \<^verbatim>\<open>req.user\<close> beyond authentication.
\<close>

definition attachments_list :: "'buf libs \<Rightarrow> jwt_user \<Rightarrow> string \<Rightarrow> db \<Rightarrow> response" where
  "attachments_list L usr cid d =
     (case parse_rows (clientAttachmentEntitySchema_issues L)
             (filter (\<lambda>a. att_client_id a = cid) (client_attachments d)) of
        Inl issues \<Rightarrow> Response 500 (Zod_error issues)
      | Inr attachments \<Rightarrow> Response 200 (Attachments_json attachments))"

text \<open>
  The file name the upload handler stores (lines 709-710 of POST
  /clients/:client_id/attachments): \<^verbatim>\<open>`/attachments/${req.file.filename}`\<close>.
\<close>

definition uploaded_file_url :: "string \<Rightarrow> string" where
  "uploaded_file_url filename = ''/attachments/'' @ filename"

section \<open>The routes\<close>

text \<open>
  Express tries the routes in the order \<^verbatim>\<open>app.get\<close>, \<^verbatim>\<open>app.post\<close>, ... registered
  them and runs the first whose method and path match; none of the handlers calls
  \<^verbatim>\<open>next()\<close>, so a later route is never tried. A path is its list of segments; a
  \<^verbatim>\<open>:name\<close> segment of a pattern matches any one non-empty segment.
\<close>

datatype http_method = GET | POST | PUT | DELETE

datatype segment = Lit string | Param string

datatype path_pattern = Path "segment list" | Any_path

datatype route_handler =
    Login | Password_reset_request | Password_reset
  | Clients_list | Clients_detail | Clients_create | Clients_update | Clients_delete
  | Clients_import | Clients_export
  | Communications_list | Communications_create | Communications_update
  | Attachments_list | Attachments_create
  | Activity_log_list | Activity_log_create
  | Spa_index

fun match_segments :: "segment list \<Rightarrow> string list \<Rightarrow> (string \<times> string) list option" where
  "match_segments [] [] = Some []"
| "match_segments (Lit l # ps) (x # xs) = (if l = x then match_segments ps xs else None)"
| "match_segments (Param k # ps) (x # xs) =
     (if x = [] then None else map_option ((#) (k, x)) (match_segments ps xs))"
| "match_segments _ _ = None"

text \<open>The routes of server.js, in the order of the file.\<close>

definition routes :: "(http_method \<times> path_pattern \<times> route_handler) list" where
  "routes =
     [ (POST, Path [Lit ''login''], Login),
       (POST, Path [Lit ''password-reset-request''], Password_reset_request),
       (POST, Path [Lit ''password-reset''], Password_reset),
       (GET, Path [Lit ''clients''], Clients_list),
       (GET, Path [Lit ''clients'', Param ''client_id''], Clients_detail),
       (POST, Path [Lit ''clients''], Clients_create),
       (PUT, Path [Lit ''clients'', Param ''client_id''], Clients_update),
       (DELETE, Path [Lit ''clients'', Param ''client_id''], Clients_delete),
       (POST, Path [Lit ''clients'', Lit ''import''], Clients_import),
       (GET, Path [Lit ''clients'', Lit ''export''], Clients_export),
       (GET, Path [Lit ''clients'', Param ''client_id'', Lit ''communications''], Communications_list),
       (POST, Path [Lit ''clients'', Param ''client_id'', Lit ''communications''], Communications_create),
       (PUT, Path [Lit ''communications'', Param ''log_id''], Communications_update),
       (GET, Path [Lit ''clients'', Param ''client_id'', Lit ''attachments''], Attachments_list),
       (POST, Path [Lit ''clients'', Param ''client_id'', Lit ''attachments''], Attachments_create),
       (GET, Path [Lit ''activity-log''], Activity_log_list),
       (POST, Path [Lit ''activity-log''], Activity_log_create),
       (GET, Any_path, Spa_index) ]"

fun dispatch ::
  "(http_method \<times> path_pattern \<times> route_handler) list \<Rightarrow> http_method \<Rightarrow> string list
     \<Rightarrow> (route_handler \<times> (string \<times> string) list) option" where
  "dispatch [] m path = None"
| "dispatch ((m', pat, h) # rs) m path =
     (if m' \<noteq> m then dispatch rs m path
      else case pat of
        Any_path \<Rightarrow> Some (h, [])
      | Path segs \<Rightarrow>
          (case match_segments segs path of
             Some params \<Rightarrow> Some (h, params)
           | None \<Rightarrow> dispatch rs m path))"

text \<open>
  A GET request of an authenticated caller, through the routes to the handlers modelled
  above; \<open>None\<close> for a route whose handler is not part of this development.
\<close>

definition app_get ::
  "'buf libs \<Rightarrow> jwt_user \<Rightarrow> string list \<Rightarrow> raw_record \<Rightarrow> db \<Rightarrow> response option" where
  "app_get L usr path q d =
     (case dispatch routes GET path of
        Some (Clients_list, params) \<Rightarrow> Some (clients_list L usr q d)
      | Some (Clients_export, params) \<Rightarrow> Some (clients_export L usr q d)
      | Some (Clients_detail, params) \<Rightarrow>
          (case map_of params ''client_id'' of
             Some cid \<Rightarrow> Some (clients_detail L usr cid d)
           | None \<Rightarrow> None)
      | Some (Attachments_list, params) \<Rightarrow>
          (case map_of params ''client_id'' of
             Some cid \<Rightarrow> Some (attachments_list L usr cid d)
           | None \<Rightarrow> None)
      | _ \<Rightarrow> None)"

section \<open>An instance of the libraries, for the examples\<close>

text \<open>
  The examples below need the parameters at concrete values. These stand-ins agree with
  zod, V8 and PostgreSQL on the strings the examples use: an address is one
  \<^verbatim>\<open>local@domain\<close> with a dot inside the domain and no space, a date starts with
  \<^verbatim>\<open>YYYY-MM-DD\<close> and goes on, if at all, with \<^verbatim>\<open>T\<close>, a URL starts with
  \<^verbatim>\<open>scheme://\<close>, the parser is handed its own outcome, json2csv throws on an empty
  array (it has no row to read the columns from), the collation is the order of the
  code units, ILIKE looks for the text between the two \<^verbatim>\<open>%\<close> without regard to
  case, and the driver writes a date as ISO text with the offset of UTC.
\<close>

definition is_digit :: "char \<Rightarrow> bool" where
  "is_digit c = (CHR ''0'' \<le> c \<and> c \<le> CHR ''9'')"

definition is_alpha :: "char \<Rightarrow> bool" where
  "is_alpha c = ((CHR ''a'' \<le> c \<and> c \<le> CHR ''z'') \<or> (CHR ''A'' \<le> c \<and> c \<le> CHR ''Z''))"

definition sample_email :: "string \<Rightarrow> bool" where
  "sample_email s =
     (case dropWhile (\<lambda>c. c \<noteq> CHR ''@'') s of
        [] \<Rightarrow> False
      | at # host \<Rightarrow>
          takeWhile (\<lambda>c. c \<noteq> CHR ''@'') s \<noteq> [] \<and> CHR ''@'' \<notin> set host \<and> CHR '' '' \<notin> set s
          \<and> CHR ''.'' \<in> set host \<and> hd host \<noteq> CHR ''.'' \<and> last host \<noteq> CHR ''.'')"

fun sample_date :: "string \<Rightarrow> bool" where
  "sample_date (y1 # y2 # y3 # y4 # d1 # m1 # m2 # d2 # a # b # rest) =
     (list_all is_digit [y1, y2, y3, y4, m1, m2, a, b] \<and> d1 = CHR ''-'' \<and> d2 = CHR ''-''
      \<and> (case rest of [] \<Rightarrow> True | t # _ \<Rightarrow> t = CHR ''T''))"
| "sample_date _ = False"

definition sample_url :: "string \<Rightarrow> bool" where
  "sample_url s =
     (takeWhile is_alpha s \<noteq> [] \<and> take 3 (dropWhile is_alpha s) = ''://''
      \<and> 3 < length (dropWhile is_alpha s))"

definition sample_ilike :: "string \<Rightarrow> string \<Rightarrow> bool" where
  "sample_ilike pat s =
     (let needle = toUpperCase (butlast (tl pat))
      in list_ex (\<lambda>i. take (length needle) (drop i (toUpperCase s)) = needle) [0..<Suc (length s)])"

text \<open>
  The driver's text for a date, with the server clock on UTC:
  \<^verbatim>\<open>2023-10-05\<close> becomes \<^verbatim>\<open>2023-10-05T00:00:00.000+00:00\<close> and
  \<^verbatim>\<open>2023-10-05T15:30:00Z\<close> becomes \<^verbatim>\<open>2023-10-05T15:30:00.000+00:00\<close>.
\<close>

definition sample_pg_date_text :: "string \<Rightarrow> string" where
  "sample_pg_date_text s =
     (if length s \<le> 10 then s @ ''T00:00:00.000+00:00'' else take 19 s @ ''.000+00:00'')"

definition sample_libs :: "(string + raw_record list) libs" where
  "sample_libs =
     \<lparr> zod_email = sample_email,
       zod_url = sample_url,
       js_date = sample_date,
       csv_parse = (\<lambda>outcome. outcome),
       json2csv_ok = (\<lambda>rows. rows \<noteq> []),
       pg_le = (\<le>),
       pg_ilike = sample_ilike,
       pg_date_text = sample_pg_date_text \<rparr>"

text \<open>A collation that ignores case, as the ICU and most locale collations do at first.\<close>

definition caseless_le :: "string \<Rightarrow> string \<Rightarrow> bool" where
  "caseless_le a b = (toUpperCase a \<le> toUpperCase b)"

section \<open>Example data\<close>

text \<open>Two callers, as \<^verbatim>\<open>/login\<close> would sign them for the seeded users.\<close>

definition manager_user :: jwt_user where
  "manager_user = \<lparr> user_id = ''user3'', role = ''manager'' \<rparr>"

definition agent_user :: jwt_user where
  "agent_user = \<lparr> user_id = ''user1'', role = ''agent'' \<rparr>"

text \<open>
  An upload of three data rows under the header
  \<^verbatim>\<open>full_name,phone,email,status\<close>; the second row has an empty email cell.
\<close>

definition batch_row_1 :: raw_record where
  "batch_row_1 =
     map_of [(''full_name'', ''Ann Lee''), (''phone'', ''5551234567''),
             (''email'', ''ann@example.com''), (''status'', ''new'')]"

definition batch_row_2 :: raw_record where
  "batch_row_2 =
     map_of [(''full_name'', ''Bob Ray''), (''phone'', ''5559876543''),
             (''email'', []), (''status'', ''new'')]"

definition batch_row_3 :: raw_record where
  "batch_row_3 =
     map_of [(''full_name'', ''Cy Dunn''), (''phone'', ''5550001111''),
             (''email'', ''cy@example.com''), (''status'', ''new'')]"

definition three_row_batch :: "raw_record list" where
  "three_row_batch = [batch_row_1, batch_row_2, batch_row_3]"

definition example_env :: "nat \<Rightarrow> tick" where
  "example_env i =
     \<lparr> uuidv4 = ''uuid-'' @ replicate i (CHR ''x''),
       now_iso = ''2024-01-01T00:00:00.000Z'',
       db_up = True \<rparr>"

definition empty_db :: db where
  "empty_db = \<lparr> users = [''user1'', ''user2'', ''user3''], clients = [], client_attachments = [] \<rparr>"

text \<open>The shape of a row the example import leaves in the table.\<close>

definition imported_row :: "string \<Rightarrow> string \<Rightarrow> string \<Rightarrow> string \<Rightarrow> client" where
  "imported_row cid nm ph em =
     \<lparr> client_id = cid, full_name = nm, phone = ph, email = em,
       property_location = None, property_type = None, budget_range = None,
       additional_preferences = None, status = ''new'', last_contact_date = None,
       next_follow_up_date = None, assigned_agent_id = None, client_notes = None,
       created_at = ''2024-01-01T00:00:00.000Z'', updated_at = ''2024-01-01T00:00:00.000Z'',
       deleted_at = None \<rparr>"

text \<open>
  A store in the shape of the seed data: a client of each of two agents, one with no
  agent, and one soft-deleted.
\<close>

definition seed_client :: "string \<Rightarrow> string \<Rightarrow> string \<Rightarrow> string option \<Rightarrow> string option \<Rightarrow> client" where
  "seed_client cid nm em agent del =
     \<lparr> client_id = cid, full_name = nm, phone = ''1112223333'', email = em,
       property_location = Some ''New York'', property_type = None, budget_range = None,
       additional_preferences = None, status = ''new'',
       last_contact_date = Some ''2023-10-05T15:30:00Z'', next_follow_up_date = None,
       assigned_agent_id = agent, client_notes = None,
       created_at = ''2023-10-05T15:00:00Z'', updated_at = ''2023-10-05T15:00:00Z'',
       deleted_at = del \<rparr>"

definition john :: client where
  "john = seed_client ''client1'' ''John Doe'' ''john.doe@example.com'' (Some ''user1'') None"

definition jane :: client where
  "jane = seed_client ''client2'' ''Jane Smith'' ''jane.smith@example.com'' (Some ''user2'') None"

definition adam :: client where
  "adam = seed_client ''client3'' ''adam West'' ''adam.west@example.com'' None None"

definition zed :: client where
  "zed = seed_client ''client4'' ''Zed Old'' ''zed.old@example.com'' (Some ''user1'')
           (Some ''2023-11-01 09:00:00+00'')"

definition seed_db :: db where
  "seed_db =
     \<lparr> users = [''user1'', ''user2'', ''user3''],
       clients = [john, jane, adam, zed],
       client_attachments = [] \<rparr>"



text \<open>
  Attachments: one of Jane's (the client of another agent) and one of the soft-deleted
  client, each under an absolute URL; and the row an upload of \<^verbatim>\<open>plan.pdf\<close> for John
  leaves behind.
\<close>

definition seed_attachment :: "string \<Rightarrow> string \<Rightarrow> string \<Rightarrow> attachment" where
  "seed_attachment aid cid url =
     \<lparr> attachment_id = aid, att_client_id = cid, uploaded_by = ''user2'',
       file_name = ''plan.pdf'', file_url = url, uploaded_at = ''2023-10-08T10:00:00Z'' \<rparr>"

definition attachment_db :: db where
  "attachment_db =
     seed_db\<lparr>client_attachments :=
       [seed_attachment ''att1'' ''client2'' ''https://files.example.com/plan.pdf'',
        seed_attachment ''att2'' ''client4'' ''https://files.example.com/old.pdf'',
        seed_attachment ''att4'' ''client1'' (uploaded_file_url ''9b2e-plan.pdf'')]\<rparr>"

text \<open>The same libraries over a store whose collation ignores case.\<close>

definition caseless_libs :: "(string + raw_record list) libs" where
  "caseless_libs = sample_libs\<lparr>pg_le := caseless_le\<rparr>"

text \<open>Query strings of the examples.\<close>

definition by_name_asc :: raw_record where
  "by_name_asc = map_of [(''sort_by'', ''full_name''), (''sort_order'', ''asc'')]"

definition no_query :: raw_record where
  "no_query = map_of []"

text \<open>
  The rule of each key of an uploaded record, in words: \<^verbatim>\<open>full_name\<close> is present with 1
  to 255 characters, \<^verbatim>\<open>phone\<close> is present with 7 to 20, \<^verbatim>\<open>email\<close> is present and an
  address, \<^verbatim>\<open>status\<close> is present and not empty, each of the two dates is absent or a
  text that \<^verbatim>\<open>new Date\<close> reads as a date, and any other key is free.
\<close>

definition field_rule :: "'buf libs \<Rightarrow> string \<Rightarrow> string option \<Rightarrow> bool" where
  "field_rule L k v =
     (if k = ''full_name'' then (case v of None \<Rightarrow> False | Some s \<Rightarrow> 1 \<le> length s \<and> length s \<le> 255)
      else if k = ''phone'' then (case v of None \<Rightarrow> False | Some s \<Rightarrow> 7 \<le> length s \<and> length s \<le> 20)
      else if k = ''email'' then (case v of None \<Rightarrow> False | Some s \<Rightarrow> zod_email L s)
      else if k = ''status'' then (case v of None \<Rightarrow> False | Some s \<Rightarrow> 1 \<le> length s)
      else if k = ''last_contact_date'' \<or> k = ''next_follow_up_date''
        then (case v of None \<Rightarrow> True | Some s \<Rightarrow> js_date L s)
      else True)"

text \<open>A record with the four required cells filled and a phone number of five digits.\<close>

definition short_phone_row :: raw_record where
  "short_phone_row =
     map_of [(''full_name'', ''Ann Lee''), (''phone'', ''12345''),
             (''email'', ''ann@example.com''), (''status'', ''new'')]"

text \<open>
  A record of an upload with a \<^verbatim>\<open>last_contact_date\<close> column whose cell is empty; the
  other cells are those of the first row of the batch.
\<close>

definition empty_date_row :: raw_record where
  "empty_date_row =
     map_of [(''full_name'', ''Ann Lee''), (''phone'', ''5551234567''),
             (''email'', ''ann@example.com''), (''status'', ''new''),
             (''last_contact_date'', [])]"

text \<open>
  What ORDER BY needs of a collation: any two texts compare one way or the other, and the
  comparison is transitive.
\<close>

definition collation :: "(string \<Rightarrow> string \<Rightarrow> bool) \<Rightarrow> bool" where
  "collation le = ((\<forall>a b. le a b \<or> le b a) \<and> (\<forall>a b c. le a b \<and> le b c \<longrightarrow> le a c))"

text \<open>Query strings that name the two columns of the handlers' allow-list the schema lacks.\<close>

definition by_updated_at :: raw_record where
  "by_updated_at = map_of [(''sort_by'', ''updated_at''), (''sort_order'', ''asc'')]"

definition by_client_id :: raw_record where
  "by_client_id = map_of [(''sort_by'', ''client_id''), (''sort_order'', ''asc'')]"

text \<open>
  A record of an upload with the columns \<^verbatim>\<open>property_location\<close>, \<^verbatim>\<open>notes\<close> and
  \<^verbatim>\<open>last_contact_date\<close> besides the four required ones: the notes cell is empty, the
  other two are filled. Below it, what the Row Validator returns for it.
\<close>

definition blank_cells_row :: raw_record where
  "blank_cells_row =
     map_of [(''full_name'', ''Ann Lee''), (''phone'', ''5551234567''),
             (''email'', ''ann@example.com''), (''status'', ''new''),
             (''property_location'', ''Paris''), (''notes'', []),
             (''last_contact_date'', ''2023-10-05'')]"

definition blank_cells_data :: client_input where
  "blank_cells_data =
     \<lparr> in_full_name = ''Ann Lee'', in_phone = ''5551234567'', in_email = ''ann@example.com'',
       in_property_location = Some ''Paris'', in_property_type = None, in_budget_range = None,
       in_additional_preferences = None, in_status = ''new'',
       in_last_contact_date = Some ''2023-10-05'', in_next_follow_up_date = None,
       in_assigned_agent_id = None, in_notes = Some [] \<rparr>"

section \<open>Properties\<close>

subsection \<open>Evaluation rules\<close>

lemmas schema_defs =
  createClientInputSchema_parse_def createClientInputSchema_issues_def z_string_def
  z_string_nullable_optional_def z_coerce_date_nullable_optional_def z_coerce_date_def

lemmas sample_defs =
  sample_libs_def sample_email_def sample_url_def is_digit_def is_alpha_def

lemmas batch_defs =
  three_row_batch_def batch_row_1_def batch_row_2_def batch_row_3_def example_env_def
  empty_db_def manager_user_def agent_user_def

lemmas insert_defs =
  insert_client_def import_values_def or_null_def date_or_null_def imported_row_def

subsection \<open>The import loop\<close>

lemma accepts_iff_no_issue: "accepts L r \<longleftrightarrow> createClientInputSchema_issues L r = []"
  by (auto simp: accepts_def schema_defs split: option.splits list.splits)

lemma absent_email_rejected: "r ''email'' = None \<Longrightarrow> \<not> accepts L r"
  by (simp add: accepts_iff_no_issue createClientInputSchema_issues_def z_string_def)

lemma empty_email_rejected: "r ''email'' = Some [] \<Longrightarrow> \<not> zod_email L [] \<Longrightarrow> \<not> accepts L r"
  by (simp add: accepts_iff_no_issue createClientInputSchema_issues_def z_string_def)

lemma import_loop_total:
  "import_loop L env i rs (sc, ec, d) = (sc', ec', d') \<Longrightarrow> sc' + ec' = sc + ec + length rs"
proof (induction rs arbitrary: i sc ec d)
  case Nil
  then show ?case by simp
next
  case (Cons r rs)
  then show ?case
    by (auto split: sum.splits option.splits)
qed

lemma insert_client_clients:
  "insert_client up d c = Some d' \<Longrightarrow> clients d' = clients d @ [c]"
  by (auto simp: insert_client_def split: if_splits)

lemma import_loop_counts:
  "inserts_succeed L env i rs d \<Longrightarrow> import_loop L env i rs (sc, ec, d) = (sc', ec', d') \<Longrightarrow>
     sc' = sc + length (filter (accepts L) rs)
     \<and> ec' = ec + length (filter (\<lambda>r. \<not> accepts L r) rs)
     \<and> length (clients d') = length (clients d) + length (filter (accepts L) rs)
     \<and> take (length (clients d)) (clients d') = clients d"
proof (induction rs arbitrary: i sc ec d)
  case Nil
  then show ?case by simp
next
  case (Cons r rs)
  show ?case
  proof (cases "createClientInputSchema_parse L r")
    case (Inl e)
    then have na: "\<not> accepts L r" by (simp add: accepts_def)
    from Cons.prems Inl have "inserts_succeed L env (Suc i) rs d"
      and "import_loop L env (Suc i) rs (sc, ec + 1, d) = (sc', ec', d')" by simp_all
    from Cons.IH[OF this] na show ?thesis by simp
  next
    case (Inr data)
    then have a: "accepts L r" by (simp add: accepts_def)
    from Cons.prems(1) Inr obtain d1 where
      ins: "insert_client (db_up (env i)) d (import_values L data (env i)) = Some d1"
      and rest: "inserts_succeed L env (Suc i) rs d1"
      by (auto split: option.splits)
    from Cons.prems(2) Inr ins
    have "import_loop L env (Suc i) rs (sc + 1, ec, d1) = (sc', ec', d')" by simp
    from Cons.IH[OF rest this] a insert_client_clients[OF ins] show ?thesis
      by (auto simp: take_Suc_conv_app_nth)
  qed
qed

lemma failed_row_skipped:
  assumes "\<not> accepts L r \<or>
     (\<exists>data. createClientInputSchema_parse L r = Inr data
        \<and> insert_client (db_up (env i)) d0 (import_values L data (env i)) = None)"
  shows "import_loop L env i (r # rest) (sc, ec, d0) = import_loop L env (Suc i) rest (sc, ec + 1, d0)"
  using assms by (auto simp: accepts_def split: sum.splits)

text \<open>
  C1. A manager uploads a file that parses into \<open>records\<close>. The import answers 200 with
  the two counts, and they add up to the number of records whatever happens to the rows.
  A row the validator rejects, or whose INSERT the store rejects, adds one to
  \<open>errorCount\<close>, leaves the store as it was, and the loop goes on with the rows after it.
  When every INSERT the loop attempts succeeds, \<open>successCount\<close> is the number of records
  the Row Validator accepts, \<open>errorCount\<close> the number it rejects, and the table has grown
  by exactly \<open>successCount\<close> rows behind the ones it had. In particular, for three records
  of which the first and third are accepted and the second has no email (no such key,
  or an empty cell that the email pattern refuses), the counts are 2 and 1 and exactly
  two rows are new.
\<close>

theorem import_reports_counts:
  assumes "role usr = ''manager''" and "csv_parse L buffer = Inr records"
  shows "\<exists>successCount errorCount d'.
     clients_import L env usr (Some buffer) d =
       (Response 200 (Import_result ''CSV import completed'' successCount errorCount), d')
     \<and> successCount + errorCount = length records
     \<and> (\<forall>i r rest sc ec d0.
          (\<not> accepts L r \<or>
           (\<exists>data. createClientInputSchema_parse L r = Inr data
              \<and> insert_client (db_up (env i)) d0 (import_values L data (env i)) = None))
          \<longrightarrow> import_loop L env i (r # rest) (sc, ec, d0) =
                import_loop L env (Suc i) rest (sc, ec + 1, d0))
     \<and> (inserts_succeed L env 0 records d \<longrightarrow>
          successCount = length (filter (accepts L) records)
          \<and> errorCount = length (filter (\<lambda>r. \<not> accepts L r) records)
          \<and> length (clients d') = length (clients d) + successCount
          \<and> take (length (clients d)) (clients d') = clients d
          \<and> (\<forall>r1 r2 r3.
                records = [r1, r2, r3] \<and> accepts L r1 \<and> accepts L r3
                \<and> (r2 ''email'' = None \<or> (r2 ''email'' = Some [] \<and> \<not> zod_email L []))
                \<longrightarrow> successCount = 2 \<and> errorCount = 1
                    \<and> length (clients d') = length (clients d) + 2))"
proof -
  obtain sc ec d' where run: "import_loop L env 0 records (0, 0, d) = (sc, ec, d')"
    by (cases "import_loop L env 0 records (0, 0, d)") auto
  have resp: "clients_import L env usr (Some buffer) d =
       (Response 200 (Import_result ''CSV import completed'' sc ec), d')"
    using assms run by (simp add: clients_import_def)
  have total: "sc + ec = length records"
    using import_loop_total[OF run] by simp
  have skip: "\<forall>i r rest sc ec d0.
          (\<not> accepts L r \<or>
           (\<exists>data. createClientInputSchema_parse L r = Inr data
              \<and> insert_client (db_up (env i)) d0 (import_values L data (env i)) = None))
          \<longrightarrow> import_loop L env i (r # rest) (sc, ec, d0) =
                import_loop L env (Suc i) rest (sc, ec + 1, d0)"
    using failed_row_skipped by blast
  have counts: "sc = length (filter (accepts L) records)
          \<and> ec = length (filter (\<lambda>r. \<not> accepts L r) records)
          \<and> length (clients d') = length (clients d) + sc
          \<and> take (length (clients d)) (clients d') = clients d
          \<and> (\<forall>r1 r2 r3.
                records = [r1, r2, r3] \<and> accepts L r1 \<and> accepts L r3
                \<and> (r2 ''email'' = None \<or> (r2 ''email'' = Some [] \<and> \<not> zod_email L []))
                \<longrightarrow> sc = 2 \<and> ec = 1 \<and> length (clients d') = length (clients d) + 2)"
    if ok: "inserts_succeed L env 0 records d"
  proof -
    note c = import_loop_counts[OF ok run]
    have scenario: "sc = 2 \<and> ec = 1 \<and> length (clients d') = length (clients d) + 2"
      if "records = [r1, r2, r3]" "accepts L r1" "accepts L r3"
         "r2 ''email'' = None \<or> (r2 ''email'' = Some [] \<and> \<not> zod_email L [])" for r1 r2 r3
    proof -
      from that(4) have "\<not> accepts L r2"
        using absent_email_rejected empty_email_rejected by blast
      with that(1-3) c show ?thesis by simp
    qed
    from c scenario show ?thesis by simp
  qed
  from resp total skip counts show ?thesis by blast
qed

theorem import_reports_counts_witness:
  "role manager_user = ''manager''
   \<and> csv_parse sample_libs (Inr three_row_batch) = Inr three_row_batch
   \<and> inserts_succeed sample_libs example_env 0 three_row_batch empty_db
   \<and> accepts sample_libs batch_row_1 \<and> batch_row_2 ''email'' = Some []
   \<and> \<not> zod_email sample_libs [] \<and> accepts sample_libs batch_row_3
   \<and> clients_import sample_libs example_env manager_user (Some (Inr three_row_batch)) empty_db =
       (Response 200 (Import_result ''CSV import completed'' 2 1),
        empty_db\<lparr>clients :=
          [imported_row ''uuid-'' ''Ann Lee'' ''5551234567'' ''ann@example.com'',
           imported_row ''uuid-xx'' ''Cy Dunn'' ''5550001111'' ''cy@example.com'']\<rparr>)"
  using import_reports_counts [of manager_user sample_libs "Inr three_row_batch" three_row_batch
      example_env empty_db]
  by (simp add: clients_import_def accepts_def schema_defs sample_defs batch_defs insert_defs
      numeral_2_eq_2)

text \<open>
  C3. On the route, multer runs before the handler looks at the role or at the file,
  and an upload it refuses is answered 500 by Express. The import
  page of the repository sends its file under the field \<^verbatim>\<open>csv_file\<close>
  (UV_ImportCSVMapping.tsx line 151) where the route reads \<^verbatim>\<open>single('file')\<close>; such a
  request gets 500 whoever sends it, where the claim says 403 for a caller who is not a
  manager and 400 for a payload without a usable file. The store is left as it was.
  The same batch under the field \<^verbatim>\<open>file\<close> gets 403 from an agent and 200 with the
  counts from a manager.
\<close>

theorem import_upload_refused:
  "multer_single ''file'' (Multipart [(''csv_file'', buffer)]) = Upload_error
   \<and> import_route L env (Verified usr) (Multipart [(''csv_file'', buffer)]) d =
       (Response 500 Default_error_page, d)
   \<and> import_route L env (Verified usr) Broken_multipart d = (Response 500 Default_error_page, d)
   \<and> role agent_user \<noteq> ''manager''
   \<and> import_route sample_libs example_env (Verified agent_user)
         (Multipart [(''csv_file'', Inr three_row_batch)]) empty_db =
       (Response 500 Default_error_page, empty_db)
   \<and> import_route sample_libs example_env (Verified agent_user)
         (Multipart [(''file'', Inr three_row_batch)]) empty_db =
       (Response 403 (Error ''Only managers can import clients.''), empty_db)
   \<and> role manager_user = ''manager''
   \<and> import_route sample_libs example_env (Verified manager_user)
         (Multipart [(''csv_file'', Inr three_row_batch)]) empty_db =
       (Response 500 Default_error_page, empty_db)
   \<and> import_route sample_libs example_env (Verified manager_user) Not_multipart empty_db =
       (Response 400 (Error ''CSV file is required.''), empty_db)
   \<and> fst (import_route sample_libs example_env (Verified manager_user)
         (Multipart [(''file'', Inr three_row_batch)]) empty_db) =
       Response 200 (Import_result ''CSV import completed'' 2 1)"
  by (simp add: import_route_def clients_import_def accepts_def schema_defs sample_defs
      batch_defs insert_defs numeral_2_eq_2)

subsection \<open>The shared query\<close>

lemmas query_defs =
  searchClientQuerySchema_parse_def searchClientQuerySchema_issues_def z_number_default_def
  z_enum_default_def with_default_def clients_select_def allowedSortBy_def allowedSortOrder_def
  sort_column_def order_by_def row_le_def

lemmas entity_defs =
  clientEntitySchema_issues_def z_string_def z_string_nullable_def z_coerce_date_nullable_def
  z_coerce_date_def clientAttachmentEntitySchema_issues_def

lemma upper_sort_order: "toUpperCase ''asc'' = ''ASC''" "toUpperCase ''desc'' = ''DESC''"
  by (simp_all add: toUpperCase_def upper_char_def)

lemma upper_names:
  "toUpperCase ''John Doe'' = ''JOHN DOE''" "toUpperCase ''Jane Smith'' = ''JANE SMITH''"
  "toUpperCase ''adam West'' = ''ADAM WEST''"
  by (simp_all add: toUpperCase_def upper_char_def)

lemma seed_fields:
  "deleted_at john = None" "deleted_at jane = None" "deleted_at adam = None"
  "deleted_at zed = Some ''2023-11-01 09:00:00+00''"
  "assigned_agent_id john = Some ''user1''" "assigned_agent_id jane = Some ''user2''"
  "assigned_agent_id adam = None" "assigned_agent_id zed = Some ''user1''"
  "full_name john = ''John Doe''" "full_name jane = ''Jane Smith''" "full_name adam = ''adam West''"
  "created_at john = ''2023-10-05T15:00:00Z''" "created_at jane = ''2023-10-05T15:00:00Z''"
  "created_at adam = ''2023-10-05T15:00:00Z''"
  "client_id john = ''client1''" "client_id jane = ''client2''" "client_id adam = ''client3''"
  "client_id zed = ''client4''"
  by (simp_all add: john_def jane_def adam_def zed_def seed_client_def)

lemma seed_entities:
  "clientEntitySchema_issues sample_libs john = []"
  "clientEntitySchema_issues sample_libs jane = []"
  "clientEntitySchema_issues sample_libs adam = []"
  by (simp_all add: entity_defs sample_defs john_def jane_def adam_def seed_client_def)

lemma seed_clients: "clients seed_db = [john, jane, adam, zed]"
  by (simp add: seed_db_def)

lemma sample_libs_sel:
  "pg_le sample_libs = (\<le>)" "json2csv_ok sample_libs = (\<lambda>rows. rows \<noteq> [])"
  "pg_le caseless_libs = caseless_le" "json2csv_ok caseless_libs = (\<lambda>rows. rows \<noteq> [])"
  by (simp_all add: sample_libs_def caseless_libs_def)

lemma set_insert_by: "set (insert_by le x xs) = insert x (set xs)"
  by (induction xs) auto

lemma set_order_by: "set (order_by le xs) = set xs"
  by (induction xs) (auto simp: order_by_def set_insert_by)

lemma clients_select_sound:
  assumes "c \<in> set (clients_select L usr pq d)"
  shows "c \<in> set (clients d) \<and> deleted_at c = None
         \<and> (role usr = ''agent'' \<longrightarrow> assigned_agent_id c = Some (user_id usr))"
  using assms unfolding clients_select_def Let_def
  by (auto dest!: in_set_takeD in_set_dropD simp: set_order_by split: if_splits)

lemma export_rows:
  assumes "clients_export L usr q d = Response n (Clients_csv rows)"
  shows "\<exists>pq. searchClientQuerySchema_parse q = Inr pq \<and> rows = clients_select L usr pq d"
  using assms by (auto simp: clients_export_def Let_def split: sum.splits if_splits)



text \<open>
  C4. When a caller with the agent role exports, every row of the result is a row of
  the table whose \<open>assigned_agent_id\<close> is the caller's user id: no row of another agent
  and no row with a NULL owner is in it.
\<close>

theorem export_agent_owned:
  assumes "role usr = ''agent''"
    and "clients_export L usr q d = Response n (Clients_csv rows)"
  shows "\<forall>c \<in> set rows. c \<in> set (clients d) \<and> assigned_agent_id c = Some (user_id usr)"
proof
  fix c assume "c \<in> set rows"
  with export_rows[OF assms(2)] obtain pq where "c \<in> set (clients_select L usr pq d)" by auto
  from clients_select_sound[OF this] assms(1)
  show "c \<in> set (clients d) \<and> assigned_agent_id c = Some (user_id usr)" by simp
qed

theorem export_agent_owned_witness:
  "role agent_user = ''agent''
   \<and> clients_export sample_libs agent_user no_query seed_db = Response 200 (Clients_csv [john])
   \<and> clients seed_db = [john, jane, adam, zed]
   \<and> assigned_agent_id john = Some (user_id agent_user)
   \<and> assigned_agent_id jane = Some ''user2'' \<and> assigned_agent_id adam = None"
  using export_agent_owned [of agent_user sample_libs no_query seed_db 200 "[john]"]
  by (simp add: clients_export_def query_defs seed_fields seed_clients upper_sort_order
      sample_libs_sel agent_user_def no_query_def)

subsection \<open>Soft delete\<close>











subsection \<open>The Row Validator\<close>

lemma fst_map_Pair: "fst ` set (map (Pair k) xs) = (if xs = [] then {} else {k})"
  by (cases xs) (auto simp: image_iff)

lemma fst_z_string:
  "fst ` set (z_string L cs k v) = (if z_string L cs k v = [] then {} else {k})"
proof (cases v)
  case None
  then show ?thesis by (simp add: z_string_def)
next
  case (Some s)
  have "z_string L cs k v = map (Pair k) (concat (map (run_check L s) cs))"
    using Some by (simp add: z_string_def)
  then show ?thesis by (simp only: fst_map_Pair map_is_Nil_conv)
qed

lemma fst_z_coerce_date_nullable_optional:
  "fst ` set (z_coerce_date_nullable_optional L k v) =
     (if z_coerce_date_nullable_optional L k v = [] then {} else {k})"
  by (cases v) (auto simp: z_coerce_date_nullable_optional_def z_coerce_date_def)

lemma full_name_rule:
  "z_string L [Min 1, Max 255] ''full_name'' v = [] \<longleftrightarrow> field_rule L ''full_name'' v"
  by (cases v) (auto simp: z_string_def field_rule_def Suc_le_eq)

lemma phone_rule:
  "z_string L [Min 7, Max 20] ''phone'' v = [] \<longleftrightarrow> field_rule L ''phone'' v"
  by (cases v) (auto simp: z_string_def field_rule_def)

lemma email_rule:
  "z_string L [Email] ''email'' v = [] \<longleftrightarrow> field_rule L ''email'' v"
  by (cases v) (auto simp: z_string_def field_rule_def)

lemma status_rule:
  "z_string L [Min 1] ''status'' v = [] \<longleftrightarrow> field_rule L ''status'' v"
  by (cases v) (auto simp: z_string_def field_rule_def Suc_le_eq)

lemma last_contact_date_rule:
  "z_coerce_date_nullable_optional L ''last_contact_date'' v = [] \<longleftrightarrow>
     field_rule L ''last_contact_date'' v"
  by (cases v) (auto simp: z_coerce_date_nullable_optional_def z_coerce_date_def field_rule_def)

lemma next_follow_up_date_rule:
  "z_coerce_date_nullable_optional L ''next_follow_up_date'' v = [] \<longleftrightarrow>
     field_rule L ''next_follow_up_date'' v"
  by (cases v) (auto simp: z_coerce_date_nullable_optional_def z_coerce_date_def field_rule_def)

lemmas field_rules =
  full_name_rule phone_rule email_rule status_rule last_contact_date_rule next_follow_up_date_rule

lemma issues_empty_iff:
  "createClientInputSchema_issues L r = [] \<longleftrightarrow>
     field_rule L ''full_name'' (r ''full_name'') \<and> field_rule L ''phone'' (r ''phone'')
     \<and> field_rule L ''email'' (r ''email'') \<and> field_rule L ''status'' (r ''status'')
     \<and> field_rule L ''last_contact_date'' (r ''last_contact_date'')
     \<and> field_rule L ''next_follow_up_date'' (r ''next_follow_up_date'')"
  unfolding createClientInputSchema_issues_def z_string_nullable_optional_def
  by (simp only: append_is_Nil_conv field_rules simp_thms)

lemma field_rule_free:
  "k \<noteq> ''full_name'' \<Longrightarrow> k \<noteq> ''phone'' \<Longrightarrow> k \<noteq> ''email'' \<Longrightarrow> k \<noteq> ''status'' \<Longrightarrow>
   k \<noteq> ''last_contact_date'' \<Longrightarrow> k \<noteq> ''next_follow_up_date'' \<Longrightarrow> field_rule L k v"
  by (simp add: field_rule_def)

lemma accepts_iff_rules: "accepts L r \<longleftrightarrow> (\<forall>k. field_rule L k (r k))"
proof
  assume "accepts L r"
  then have ok: "createClientInputSchema_issues L r = []" by (simp add: accepts_iff_no_issue)
  show "\<forall>k. field_rule L k (r k)"
  proof
    fix k
    from ok[unfolded issues_empty_iff] field_rule_free[of k L "r k"]
    show "field_rule L k (r k)" by blast
  qed
next
  assume "\<forall>k. field_rule L k (r k)"
  then show "accepts L r" by (simp add: accepts_iff_no_issue issues_empty_iff)
qed

lemma issue_paths:
  "fst ` set (createClientInputSchema_issues L r) = {k. \<not> field_rule L k (r k)}"
proof -
  have paths: "fst ` set (createClientInputSchema_issues L r) =
      (if field_rule L ''full_name'' (r ''full_name'') then {} else {''full_name''})
      \<union> (if field_rule L ''phone'' (r ''phone'') then {} else {''phone''})
      \<union> (if field_rule L ''email'' (r ''email'') then {} else {''email''})
      \<union> (if field_rule L ''status'' (r ''status'') then {} else {''status''})
      \<union> (if field_rule L ''last_contact_date'' (r ''last_contact_date'') then {}
          else {''last_contact_date''})
      \<union> (if field_rule L ''next_follow_up_date'' (r ''next_follow_up_date'') then {}
          else {''next_follow_up_date''})"
    unfolding createClientInputSchema_issues_def z_string_nullable_optional_def
    by (simp only: set_append image_Un fst_z_string fst_z_coerce_date_nullable_optional
        field_rules set_simps image_empty Un_empty_right Un_empty_left Un_assoc)
  show ?thesis
  proof (rule set_eqI)
    fix k
    show "k \<in> fst ` set (createClientInputSchema_issues L r) \<longleftrightarrow>
          k \<in> {k. \<not> field_rule L k (r k)}"
      unfolding paths using field_rule_free[of k L "r k"]
      by (auto split: if_splits)
  qed
qed

lemma parse_Inl:
  "createClientInputSchema_parse L r = Inl issues \<Longrightarrow>
     issues = createClientInputSchema_issues L r \<and> issues \<noteq> []"
  by (auto simp: createClientInputSchema_parse_def createClientInputSchema_issues_def z_string_def
      split: list.splits option.splits)

lemma parse_Inr:
  assumes "createClientInputSchema_parse L r = Inr data"
  shows "r ''full_name'' = Some (in_full_name data) \<and> r ''phone'' = Some (in_phone data)
     \<and> r ''email'' = Some (in_email data) \<and> r ''status'' = Some (in_status data)
     \<and> in_property_location data = r ''property_location''
     \<and> in_property_type data = r ''property_type''
     \<and> in_budget_range data = r ''budget_range''
     \<and> in_additional_preferences data = r ''additional_preferences''
     \<and> in_last_contact_date data = r ''last_contact_date''
     \<and> in_next_follow_up_date data = r ''next_follow_up_date''
     \<and> in_assigned_agent_id data = r ''assigned_agent_id''
     \<and> in_notes data = r ''notes''"
  using assms
  by (auto simp: createClientInputSchema_parse_def split: list.splits option.splits)

lemma parse_Inr_stored:
  assumes "createClientInputSchema_parse L r = Inr data"
  shows "property_location (import_values L data t) =
       (case r ''property_location'' of None \<Rightarrow> None | Some s \<Rightarrow> if s = [] then None else Some s)
     \<and> property_type (import_values L data t) =
       (case r ''property_type'' of None \<Rightarrow> None | Some s \<Rightarrow> if s = [] then None else Some s)
     \<and> budget_range (import_values L data t) =
       (case r ''budget_range'' of None \<Rightarrow> None | Some s \<Rightarrow> if s = [] then None else Some s)
     \<and> additional_preferences (import_values L data t) =
       (case r ''additional_preferences'' of None \<Rightarrow> None | Some s \<Rightarrow> if s = [] then None else Some s)
     \<and> assigned_agent_id (import_values L data t) =
       (case r ''assigned_agent_id'' of None \<Rightarrow> None | Some s \<Rightarrow> if s = [] then None else Some s)
     \<and> client_notes (import_values L data t) =
       (case r ''notes'' of None \<Rightarrow> None | Some s \<Rightarrow> if s = [] then None else Some s)
     \<and> last_contact_date (import_values L data t) =
       (case r ''last_contact_date'' of None \<Rightarrow> None | Some s \<Rightarrow> Some (pg_date_text L s))
     \<and> next_follow_up_date (import_values L data t) =
       (case r ''next_follow_up_date'' of None \<Rightarrow> None | Some s \<Rightarrow> Some (pg_date_text L s))"
  using parse_Inr[OF assms]
  by (simp add: import_values_def date_or_null_def or_null_def)

text \<open>
  C6, as the code has it. The Row Validator accepts a record exactly when every key
  keeps its rule (\<open>field_rule\<close>): \<open>full_name\<close> present with 1 to 255 characters, \<open>phone\<close>
  present with 7 to 20, \<open>email\<close> present and well-formed, \<open>status\<close> present and not empty,
  and each of \<open>last_contact_date\<close> and \<open>next_follow_up_date\<close> absent or a readable date.
  On acceptance the parsed record holds the cells as they came, an absent optional key
  still absent. In the row the import coordinator then inserts, the column of an
  optional text key is NULL when the key is absent and when its cell is empty, and the
  cell itself otherwise; the column of an optional date key is NULL when the key is
  absent, and otherwise the text the driver writes for the date built from the cell. On
  any other record the parse raises a validation error that names exactly the keys
  whose rule is broken, and the import coordinator counts the row as rejected and goes
  on.
\<close>

theorem row_validator_contract:
  "(accepts L r \<longleftrightarrow> (\<forall>k. field_rule L k (r k)))
   \<and> (createClientInputSchema_parse L r = Inr data \<longrightarrow>
        r ''full_name'' = Some (in_full_name data) \<and> r ''phone'' = Some (in_phone data)
        \<and> r ''email'' = Some (in_email data) \<and> r ''status'' = Some (in_status data)
        \<and> in_property_location data = r ''property_location''
        \<and> in_property_type data = r ''property_type''
        \<and> in_budget_range data = r ''budget_range''
        \<and> in_additional_preferences data = r ''additional_preferences''
        \<and> in_last_contact_date data = r ''last_contact_date''
        \<and> in_next_follow_up_date data = r ''next_follow_up_date''
        \<and> in_assigned_agent_id data = r ''assigned_agent_id''
        \<and> in_notes data = r ''notes''
        \<and> property_location (import_values L data t) =
          (case r ''property_location'' of None \<Rightarrow> None | Some s \<Rightarrow> if s = [] then None else Some s)
        \<and> property_type (import_values L data t) =
          (case r ''property_type'' of None \<Rightarrow> None | Some s \<Rightarrow> if s = [] then None else Some s)
        \<and> budget_range (import_values L data t) =
          (case r ''budget_range'' of None \<Rightarrow> None | Some s \<Rightarrow> if s = [] then None else Some s)
        \<and> additional_preferences (import_values L data t) =
          (case r ''additional_preferences'' of None \<Rightarrow> None | Some s \<Rightarrow> if s = [] then None else Some s)
        \<and> assigned_agent_id (import_values L data t) =
          (case r ''assigned_agent_id'' of None \<Rightarrow> None | Some s \<Rightarrow> if s = [] then None else Some s)
        \<and> client_notes (import_values L data t) =
          (case r ''notes'' of None \<Rightarrow> None | Some s \<Rightarrow> if s = [] then None else Some s)
        \<and> last_contact_date (import_values L data t) =
          (case r ''last_contact_date'' of None \<Rightarrow> None | Some s \<Rightarrow> Some (pg_date_text L s))
        \<and> next_follow_up_date (import_values L data t) =
          (case r ''next_follow_up_date'' of None \<Rightarrow> None | Some s \<Rightarrow> Some (pg_date_text L s)))
   \<and> (createClientInputSchema_parse L r = Inl issues \<longrightarrow>
        issues \<noteq> [] \<and> fst ` set issues = {k. \<not> field_rule L k (r k)})
   \<and> (\<not> accepts L r \<longrightarrow>
        import_loop L env i (r # rest) (sc, ec, d) =
          import_loop L env (Suc i) rest (sc, ec + 1, d))"
proof -
  have raised: "createClientInputSchema_parse L r = Inl issues \<longrightarrow>
        issues \<noteq> [] \<and> fst ` set issues = {k. \<not> field_rule L k (r k)}"
    using parse_Inl issue_paths by blast
  have skipped: "\<not> accepts L r \<longrightarrow>
        import_loop L env i (r # rest) (sc, ec, d) =
          import_loop L env (Suc i) rest (sc, ec + 1, d)"
    using failed_row_skipped by blast
  show ?thesis
  proof (intro conjI impI)
    show "accepts L r \<longleftrightarrow> (\<forall>k. field_rule L k (r k))" by (rule accepts_iff_rules)
  qed (use raised skipped in \<open>simp_all add: parse_Inr parse_Inr_stored\<close>)
qed

theorem row_validator_contract_witness:
  "accepts sample_libs blank_cells_row
   \<and> createClientInputSchema_parse sample_libs blank_cells_row = Inr blank_cells_data
   \<and> blank_cells_row ''property_location'' = Some ''Paris''
   \<and> property_location (import_values sample_libs blank_cells_data (example_env 0)) = Some ''Paris''
   \<and> blank_cells_row ''notes'' = Some []
   \<and> client_notes (import_values sample_libs blank_cells_data (example_env 0)) = None
   \<and> blank_cells_row ''property_type'' = None
   \<and> property_type (import_values sample_libs blank_cells_data (example_env 0)) = None
   \<and> blank_cells_row ''last_contact_date'' = Some ''2023-10-05''
   \<and> last_contact_date (import_values sample_libs blank_cells_data (example_env 0)) =
       Some ''2023-10-05T00:00:00.000+00:00''
   \<and> blank_cells_row ''next_follow_up_date'' = None
   \<and> next_follow_up_date (import_values sample_libs blank_cells_data (example_env 0)) = None
   \<and> \<not> accepts sample_libs batch_row_2
   \<and> createClientInputSchema_parse sample_libs batch_row_2 = Inl [(''email'', Invalid_email)]
   \<and> \<not> field_rule sample_libs ''email'' (batch_row_2 ''email'')
   \<and> import_loop sample_libs example_env 1 [batch_row_2] (1, 0, empty_db) = (1, 1, empty_db)"
  using row_validator_contract [where L = sample_libs and r = blank_cells_row
      and data = blank_cells_data and t = "example_env 0"]
    row_validator_contract [where L = sample_libs and r = batch_row_2 and env = example_env
      and i = 1 and rest = "[]" and sc = 1 and ec = 0 and d = empty_db]
  by (simp add: accepts_def schema_defs sample_defs batch_defs insert_defs field_rule_def
      blank_cells_row_def blank_cells_data_def sample_pg_date_text_def)

theorem row_validator_contract_counterexample:
  "short_phone_row ''full_name'' = Some ''Ann Lee'' \<and> short_phone_row ''phone'' = Some ''12345''
   \<and> short_phone_row ''email'' = Some ''ann@example.com'' \<and> zod_email sample_libs ''ann@example.com''
   \<and> short_phone_row ''status'' = Some ''new''
   \<and> \<not> accepts sample_libs short_phone_row
   \<and> createClientInputSchema_parse sample_libs short_phone_row = Inl [(''phone'', Too_small)]"
  by (simp add: accepts_def schema_defs sample_defs short_phone_row_def)

text \<open>
  C10. Where \<^verbatim>\<open>new Date("")\<close> is no valid date, a record whose
  \<open>last_contact_date\<close> or \<open>next_follow_up_date\<close> cell is the empty string is rejected by
  the Row Validator with an \<open>invalid_date\<close> issue at that key, whatever its other cells
  hold, so also when every required field is present and well-formed.
\<close>

theorem empty_date_cell_rejected:
  assumes "\<not> js_date L []"
    and "r ''last_contact_date'' = Some [] \<or> r ''next_follow_up_date'' = Some []"
  shows "\<not> accepts L r
     \<and> (\<exists>issues. createClientInputSchema_parse L r = Inl issues
          \<and> ((r ''last_contact_date'' = Some [] \<and> (''last_contact_date'', Invalid_date) \<in> set issues)
             \<or> (r ''next_follow_up_date'' = Some [] \<and> (''next_follow_up_date'', Invalid_date) \<in> set issues)))"
proof -
  from assms have bad:
    "(r ''last_contact_date'' = Some []
        \<and> (''last_contact_date'', Invalid_date) \<in> set (createClientInputSchema_issues L r))
     \<or> (r ''next_follow_up_date'' = Some []
        \<and> (''next_follow_up_date'', Invalid_date) \<in> set (createClientInputSchema_issues L r))"
    by (auto simp: createClientInputSchema_issues_def z_coerce_date_nullable_optional_def
        z_coerce_date_def)
  then have ne: "createClientInputSchema_issues L r \<noteq> []" by auto
  then have rej: "\<not> accepts L r" by (simp add: accepts_iff_no_issue)
  then obtain issues where p: "createClientInputSchema_parse L r = Inl issues"
    by (auto simp: accepts_def split: sum.splits)
  from parse_Inl[OF p] bad p rej show ?thesis by simp
qed

theorem empty_date_cell_rejected_witness:
  "\<not> js_date sample_libs [] \<and> empty_date_row ''last_contact_date'' = Some []
   \<and> field_rule sample_libs ''full_name'' (empty_date_row ''full_name'')
   \<and> field_rule sample_libs ''phone'' (empty_date_row ''phone'')
   \<and> field_rule sample_libs ''email'' (empty_date_row ''email'')
   \<and> field_rule sample_libs ''status'' (empty_date_row ''status'')
   \<and> \<not> accepts sample_libs empty_date_row
   \<and> createClientInputSchema_parse sample_libs empty_date_row =
       Inl [(''last_contact_date'', Invalid_date)]
   \<and> accepts sample_libs batch_row_1"
  using empty_date_cell_rejected [of sample_libs empty_date_row]
  by (simp add: accepts_def schema_defs sample_defs batch_defs empty_date_row_def field_rule_def)

subsection \<open>The order of the rows\<close>

lemma sorted_wrt_insert_by:
  assumes total: "\<forall>a b. le a b \<or> le b a" and trans: "\<forall>a b c. le a b \<and> le b c \<longrightarrow> le a c"
  shows "sorted_wrt le xs \<Longrightarrow> sorted_wrt le (insert_by le x xs)"
proof (induction xs)
  case Nil
  then show ?case by simp
next
  case (Cons y ys)
  from Cons.prems have below: "\<forall>z \<in> set ys. le y z" and tail: "sorted_wrt le ys" by simp_all
  show ?case
  proof (cases "le x y")
    case True
    have "\<forall>z \<in> set ys. le x z"
    proof
      fix z assume "z \<in> set ys"
      with below have "le y z" by simp
      with True trans show "le x z" by blast
    qed
    with True below tail show ?thesis by simp
  next
    case False
    with total have "le y x" by blast
    with below have "\<forall>z \<in> set (insert_by le x ys). le y z" by (simp add: set_insert_by)
    with False Cons.IH[OF tail] show ?thesis by simp
  qed
qed

lemma sorted_wrt_order_by:
  assumes "\<forall>a b. le a b \<or> le b a" and "\<forall>a b c. le a b \<and> le b c \<longrightarrow> le a c"
  shows "sorted_wrt le (order_by le xs)"
proof (induction xs)
  case Nil
  then show ?case by (simp add: order_by_def)
next
  case (Cons x xs)
  from sorted_wrt_insert_by[OF assms Cons.IH]
  show ?case by (simp add: order_by_def)
qed

lemma collation_string_le: "collation ((\<le>) :: string \<Rightarrow> string \<Rightarrow> bool)"
proof -
  have "(a::string) \<le> b \<or> b \<le> a" for a b by (rule linear)
  moreover have "(a::string) \<le> b \<and> b \<le> c \<longrightarrow> a \<le> c" for a b c
    using order_trans[of a b c] by blast
  ultimately show ?thesis unfolding collation_def by blast
qed

lemma select_by_name_asc_sorted:
  assumes "collation (pg_le L)"
    and "q_sort_by pq = ''full_name''" and "q_sort_order pq = ''asc''"
  shows "sorted_wrt (\<lambda>a b. pg_le L (full_name a) (full_name b)) (clients_select L usr pq d)"
proof -
  let ?le = "\<lambda>a b. pg_le L (full_name a) (full_name b)"
  have le: "row_le L ''full_name'' ''ASC'' = ?le"
    by (simp add: row_le_def sort_column_def fun_eq_iff)
  have total: "\<forall>a b. ?le a b \<or> ?le b a"
    using assms(1) unfolding collation_def by blast
  have trans: "\<forall>a b c. ?le a b \<and> ?le b c \<longrightarrow> ?le a c"
    using assms(1) unfolding collation_def by blast
  have sel: "(if q_sort_by pq \<in> set allowedSortBy then q_sort_by pq else ''full_name'') = ''full_name''"
    by (simp add: assms(2))
  have ord: "(if toUpperCase (q_sort_order pq) \<in> set allowedSortOrder
              then toUpperCase (q_sort_order pq) else ''ASC'') = ''ASC''"
    by (simp add: assms(3) upper_sort_order allowedSortOrder_def)
  have "sorted_wrt ?le (order_by ?le xs)" for xs
    by (rule sorted_wrt_order_by[OF total trans])
  then have "sorted_wrt ?le (take n (drop m (order_by ?le xs)))" for xs n m
    by (intro sorted_wrt_take sorted_wrt_drop)
  then show ?thesis
    unfolding clients_select_def Let_def sel ord le .
qed

text \<open>
  C8, as the code has it. With \<^verbatim>\<open>sort_by=full_name&sort_order=asc\<close> the rows of an
  export come in ascending order of \<open>full_name\<close> under the collation of the store, which
  the query leaves to PostgreSQL. They are in case-sensitive lexicographic order when
  that collation is the order of the code units.
\<close>

theorem export_ordered_by_name:
  assumes "collation (pg_le L)"
    and "q ''sort_by'' = Some ''full_name''" and "q ''sort_order'' = Some ''asc''"
    and "clients_export L usr q d = Response n (Clients_csv rows)"
  shows "sorted_wrt (\<lambda>a b. pg_le L (full_name a) (full_name b)) rows
         \<and> (pg_le L = (\<le>) \<longrightarrow> sorted (map full_name rows))"
proof -
  from export_rows[OF assms(4)] obtain pq where
    pq: "searchClientQuerySchema_parse q = Inr pq" and rows: "rows = clients_select L usr pq d"
    by blast
  from pq assms(2,3) have "q_sort_by pq = ''full_name''" and "q_sort_order pq = ''asc''"
    by (auto simp: searchClientQuerySchema_parse_def with_default_def split: list.splits)
  from select_by_name_asc_sorted[OF assms(1) this]
  have s: "sorted_wrt (\<lambda>a b. pg_le L (full_name a) (full_name b)) rows"
    by (simp add: rows)
  then have "sorted (map full_name rows)" if "pg_le L = (\<le>)"
    using that by (simp add: sorted_map)
  with s show ?thesis by blast
qed

theorem export_ordered_by_name_witness:
  "collation (pg_le sample_libs)
   \<and> by_name_asc ''sort_by'' = Some ''full_name'' \<and> by_name_asc ''sort_order'' = Some ''asc''
   \<and> clients_export sample_libs manager_user by_name_asc seed_db =
       Response 200 (Clients_csv [jane, john, adam])
   \<and> pg_le sample_libs = (\<le>)
   \<and> map full_name [jane, john, adam] = [''Jane Smith'', ''John Doe'', ''adam West'']
   \<and> sorted (map full_name [jane, john, adam])"
  using export_ordered_by_name [of sample_libs by_name_asc manager_user seed_db 200 "[jane, john, adam]"]
    collation_string_le
  by (simp add: clients_export_def query_defs seed_fields seed_clients upper_sort_order
      sample_libs_sel manager_user_def by_name_asc_def)

theorem export_ordered_by_name_counterexample:
  "(\<forall>a b. pg_le caseless_libs a b \<or> pg_le caseless_libs b a)
   \<and> clients_export caseless_libs manager_user by_name_asc seed_db =
       Response 200 (Clients_csv [adam, jane, john])
   \<and> map full_name [adam, jane, john] = [''adam West'', ''Jane Smith'', ''John Doe'']
   \<and> \<not> sorted (map full_name [adam, jane, john])"
proof -
  have "caseless_le a b \<or> caseless_le b a" for a b
    unfolding caseless_le_def by (rule linear)
  then show ?thesis
    by (simp add: clients_export_def query_defs seed_fields seed_clients upper_sort_order
        upper_names sample_libs_sel manager_user_def by_name_asc_def caseless_le_def)
qed

subsection \<open>The attachments of a client\<close>

text \<open>
  C9. The listing does not return every stored attachment: it maps each row through
  \<open>clientAttachmentEntitySchema\<close>, whose \<open>file_url\<close> must be a URL, and the upload handler
  of the repository stores \<^verbatim>\<open>/attachments/<file>\<close>, which is none. For a client with such
  a row the listing answers 500, here to the agent the client is assigned to; for
  clients whose rows carry absolute URLs it returns the rows, also to an agent who is
  not the owner and for a soft-deleted client.
\<close>

theorem uploaded_attachment_not_listed:
  "client_id john = ''client1'' \<and> deleted_at john = None
   \<and> assigned_agent_id john = Some (user_id agent_user)
   \<and> file_url (seed_attachment ''att4'' ''client1'' (uploaded_file_url ''9b2e-plan.pdf'')) =
       ''/attachments/9b2e-plan.pdf''
   \<and> seed_attachment ''att4'' ''client1'' (uploaded_file_url ''9b2e-plan.pdf'')
        \<in> set (client_attachments attachment_db)
   \<and> attachments_list sample_libs agent_user ''client1'' attachment_db =
       Response 500 (Zod_error [(''file_url'', Invalid_url)])
   \<and> assigned_agent_id jane = Some ''user2''
   \<and> attachments_list sample_libs agent_user ''client2'' attachment_db =
       Response 200 (Attachments_json
         [seed_attachment ''att1'' ''client2'' ''https://files.example.com/plan.pdf''])
   \<and> deleted_at zed = Some ''2023-11-01 09:00:00+00''
   \<and> attachments_list sample_libs agent_user ''client4'' attachment_db =
       Response 200 (Attachments_json
         [seed_attachment ''att2'' ''client4'' ''https://files.example.com/old.pdf''])"
  by (simp add: attachments_list_def parse_rows_def attachment_db_def seed_attachment_def
      seed_db_def seed_fields entity_defs sample_defs uploaded_file_url_def agent_user_def)

subsection \<open>Requests the routes and the query schema turn away\<close>

text \<open>
  C2. \<^verbatim>\<open>GET /clients/export\<close> never reaches the export handler: the route
  \<^verbatim>\<open>/clients/:client_id\<close> is registered before it and matches the path with
  \<^verbatim>\<open>client_id = "export"\<close>, so the request is answered by the detail handler. On the
  seed store a manager gets 404 there, where the listing with the same parameters
  returns three clients and the export handler, were it reached, would return the same
  three.
\<close>

theorem export_route_shadowed:
  "dispatch routes GET [''clients'', ''export''] = Some (Clients_detail, [(''client_id'', ''export'')])
   \<and> app_get L usr [''clients'', ''export''] q d = Some (clients_detail L usr ''export'' d)
   \<and> app_get sample_libs manager_user [''clients'', ''export''] no_query seed_db =
       Some (Response 404 (Error ''Client not found''))
   \<and> app_get sample_libs manager_user [''clients''] no_query seed_db =
       Some (Response 200 (Clients_json [john, jane, adam]))
   \<and> clients_export sample_libs manager_user no_query seed_db =
       Response 200 (Clients_csv [john, jane, adam])"
  by (simp add: app_get_def routes_def clients_detail_def select_live_client_def
      clients_list_def clients_export_def parse_rows_def query_defs seed_fields seed_entities
      seed_clients upper_sort_order sample_libs_sel manager_user_def no_query_def)

text \<open>
  C7. Of the four columns of the handlers' allow-list, \<^verbatim>\<open>client_id\<close> and
  \<^verbatim>\<open>updated_at\<close> are not values of the enum of \<^verbatim>\<open>searchClientQuerySchema\<close>
  (\<^verbatim>\<open>full_name\<close>, \<^verbatim>\<open>created_at\<close>, \<^verbatim>\<open>status\<close>): a listing or an export that asks for
  either is answered 500 by the \<^verbatim>\<open>catch\<close> of the handler, before any allow-list is read.
\<close>

theorem allowed_sort_column_refused:
  "''updated_at'' \<in> set allowedSortBy \<and> ''client_id'' \<in> set allowedSortBy
   \<and> clients_list L usr by_updated_at d = Response 500 (Zod_error [(''sort_by'', Invalid_enum_value)])
   \<and> clients_list L usr by_client_id d = Response 500 (Zod_error [(''sort_by'', Invalid_enum_value)])
   \<and> clients_export L usr by_updated_at d = Response 500 (Zod_error [(''sort_by'', Invalid_enum_value)])
   \<and> clients_export L usr by_client_id d = Response 500 (Zod_error [(''sort_by'', Invalid_enum_value)])"
  by (simp add: clients_list_def clients_export_def searchClientQuerySchema_parse_def
      searchClientQuerySchema_issues_def z_number_default_def z_enum_default_def
      allowedSortBy_def by_updated_at_def by_client_id_def)

end
